theory Spec2Isabelle
  imports Main
begin

section \<open>The model\<close>

text \<open>
  The model covers the tile data-resolution engine of \<open>TileBuilder.cpp\<close> (profile
  reconciliation, builder validation, the ancestor walks of \<open>createValidImage\<close> and
  \<open>createValidHeightField\<close>) and the cache-reachability query \<open>MapFrame::isCached\<close> of
  \<open>MapFrame.cpp\<close>. A null pointer is \<open>None\<close>; a function that writes through a reference
  or changes the builder returns the new value next to its result. Diagnostic output
  (\<open>osg::notify\<close>) is not part of the model.
\<close>

subsection \<open>Tile keys\<close>

text \<open>
  A tile key addresses one cell of the quad-tree: its level of detail, column and row.
\<close>

record TileKey =
  level :: nat
  column :: nat
  row :: nat

text \<open>
  Modelled from the spec: \<open>TileKey::createParentKey\<close> is declared in a header that is
  not among the sources. The specification says that it "produces the unique ancestor
  one level up, or a null/absent result at level 0 (root has no parent)". In quad-tree
  addressing the cell one level up that contains (column, row) is (column div 2, row div 2).
\<close>

definition createParentKey :: "TileKey \<Rightarrow> TileKey option" where
  "createParentKey k =
     (if level k = 0 then None
      else Some \<lparr> level = level k - 1, column = column k div 2, row = row k div 2 \<rparr>)"

text \<open>
\<open>createParentKey\<close> applied \<open>n\<close> times in a row; absent as soon as one step is.
\<close>

fun parent_iter :: "nat \<Rightarrow> TileKey \<Rightarrow> TileKey option" where
  "parent_iter 0 k = Some k"
| "parent_iter (Suc n) k =
     (case createParentKey k of None \<Rightarrow> None | Some p \<Rightarrow> parent_iter n p)"

lemma createParentKey_level:
  "createParentKey k = Some p \<Longrightarrow> level p < level k"
  by (auto simp: createParentKey_def split: if_splits)

lemma createParentKey_level_eq:
  "createParentKey k = Some p \<Longrightarrow> Suc (level p) = level k"
  by (auto simp: createParentKey_def split: if_splits)

lemma createParentKey_None_iff:
  "createParentKey k = None \<longleftrightarrow> level k = 0"
  by (simp add: createParentKey_def)

text \<open>
  The key itself followed by all of its ancestors up to the root, nearest first: the
  keys an exhaustive walk visits.
\<close>

function ancestor_chain :: "TileKey \<Rightarrow> TileKey list" where
  "ancestor_chain k =
     k # (case createParentKey k of None \<Rightarrow> [] | Some p \<Rightarrow> ancestor_chain p)"
  by pat_completeness auto
termination
  by (relation "measure level") (auto simp: createParentKey_level)

declare ancestor_chain.simps [simp del]

subsection \<open>Data sources\<close>

datatype ProfileType = UNKNOWN | GLOBAL_GEODETIC | GLOBAL_MERCATOR | PROJECTED

text \<open>
  A \<open>TileGridProfile\<close> carries its type and its extents. Modelled from the spec: its
  comparison operators are declared in a header that is not among the sources; the
  specification compares profiles for being "identical", which is equality of the record.
\<close>

record TileGridProfile =
  profileType :: ProfileType
  extents :: "int \<times> int \<times> int \<times> int"

text \<open>
  A \<open>TileSource\<close>: its name, its profile, and what \<open>createImage\<close> and
  \<open>createHeightField\<close> answer at a key. The walks below ask a source at most once per
  key, so one answer per key describes a source.
\<close>

record ('img, 'hf) TileSource =
  getName :: string
  getProfile :: TileGridProfile
  createImage :: "TileKey \<Rightarrow> 'img option"
  createHeightField :: "TileKey \<Rightarrow> 'hf option"

text \<open>
An \<open>osg::HeightField\<close>: a grid of samples with its column and row counts.
\<close>

record HeightField =
  getNumColumns :: nat
  getNumRows :: nat
  getHeightList :: "int list"

subsection \<open>The ancestor walk\<close>

text \<open>
  The loop of \<open>createValidImage\<close> (lines 457-462) and of \<open>createValidHeightField\<close>
  (lines 427-432): while the key is valid, ask the source at it, leave the loop on an
  answer, otherwise go on with the parent key. \<open>create\<close> is the source's \<open>createImage\<close>
  or \<open>createHeightField\<close>. The loop leaves the raster and the key either both set or
  both null, so its exit state is one optional pair; the second component of the result
  lists the keys at which the source was asked, in the order of the calls.
\<close>

function ancestor_walk ::
  "(TileKey \<Rightarrow> 'r option) \<Rightarrow> TileKey option \<Rightarrow> ('r \<times> TileKey) option \<times> TileKey list" where
  "ancestor_walk create None = (None, [])"
| "ancestor_walk create (Some k) =
     (case create k of
        Some r \<Rightarrow> (Some (r, k), [k])
      | None \<Rightarrow>
          (case ancestor_walk create (createParentKey k) of
             (found, asked) \<Rightarrow> (found, k # asked)))"
  by pat_completeness auto
termination
  by (relation "measure (\<lambda>(create, ko). case ko of None \<Rightarrow> 0 | Some k \<Rightarrow> Suc (level k))")
     (auto simp: createParentKey_def split: if_splits)

text \<open>
  \<open>TileBuilder::createValidImage\<close>. \<open>imageTile\<close> is the caller's
  \<open>ImageTileKeyPair\<close> (an image pointer and a key pointer); the result is the returned
  flag, the pair as the function leaves it, and the keys at which the source was asked.
\<close>

definition createValidImage ::
  "('img, 'hf) TileSource \<Rightarrow> TileKey \<Rightarrow> 'img option \<times> TileKey option
     \<Rightarrow> bool \<times> ('img option \<times> TileKey option) \<times> TileKey list" where
  "createValidImage tileSource key imageTile =
     (case (case createImage tileSource key of
              Some img \<Rightarrow> (Some (img, key), [])
            | None \<Rightarrow> ancestor_walk (createImage tileSource) (createParentKey key)) of
        (Some (img, image_key), asked) \<Rightarrow> (True, (Some img, Some image_key), key # asked)
      | (None, asked) \<Rightarrow> (False, imageTile, key # asked))"

text \<open>
  \<open>TileBuilder::createValidHeightField\<close>. \<open>HeightFieldExtractor::extractChild\<close> is
  declared in a header that is not among the sources: it is the parameter \<open>extractChild\<close>,
  applied to the extractor's key and heightfield, the child key and the requested
  column and row counts. Modelled from the spec: it returns a raster
  (\<open>extract(...) -> raster\<close>). The result is the returned heightfield and the keys at
  which the source was asked.
\<close>

definition createValidHeightField ::
  "(TileKey \<Rightarrow> HeightField \<Rightarrow> TileKey \<Rightarrow> nat \<Rightarrow> nat \<Rightarrow> HeightField)
     \<Rightarrow> ('img, HeightField) TileSource \<Rightarrow> TileKey \<Rightarrow> HeightField option \<times> TileKey list" where
  "createValidHeightField extractChild tileSource key =
     (case createHeightField tileSource key of
        Some hf \<Rightarrow> (Some hf, [key])
      | None \<Rightarrow>
          (case ancestor_walk (createHeightField tileSource) (createParentKey key) of
             (Some (hf, hf_key), asked) \<Rightarrow>
               (Some (extractChild hf_key hf key (getNumColumns hf) (getNumRows hf)), key # asked)
           | (None, asked) \<Rightarrow> (None, key # asked)))"

subsection \<open>The resolution the specification describes\<close>

text \<open>
  The specification's AncestorResolver: the first key of the chain (the requested key,
  then its ancestors, nearest first) where the source has data, with that data; and the
  keys it tries: the chain up to and including that key.
\<close>

definition has_data :: "(TileKey \<Rightarrow> 'r option) \<Rightarrow> TileKey \<Rightarrow> bool" where
  "has_data create k = (case create k of None \<Rightarrow> False | Some r \<Rightarrow> True)"

definition resolveAncestor :: "(TileKey \<Rightarrow> 'r option) \<Rightarrow> TileKey \<Rightarrow> ('r \<times> TileKey) option" where
  "resolveAncestor create key =
     (case dropWhile (\<lambda>k. \<not> has_data create k) (ancestor_chain key) of
        [] \<Rightarrow> None
      | k # ks \<Rightarrow> map_option (\<lambda>r. (r, k)) (create k))"

definition keys_tried :: "(TileKey \<Rightarrow> 'r option) \<Rightarrow> TileKey \<Rightarrow> TileKey list" where
  "keys_tried create key =
     takeWhile (\<lambda>k. \<not> has_data create k) (ancestor_chain key)
       @ take 1 (dropWhile (\<lambda>k. \<not> has_data create k) (ancestor_chain key))"

subsection \<open>Profile reconciliation and validation\<close>

text \<open>
  The map's coordinate system type: geocentric, or any other (\<open>type="flat"\<close>).
\<close>

datatype CoordinateSystemType = CSTYPE_GEOCENTRIC | CSTYPE_PROJECTED

record MapConfig =
  getCoordinateSystemType :: CoordinateSystemType

text \<open>
  The fields of a \<open>TileBuilder\<close> that \<open>getDataProfile\<close> and \<open>isValid\<close> read and write.
  The constructor has dereferenced \<open>map\<close>, so the map is present; it leaves
  \<open>_dataProfile\<close> of type \<open>UNKNOWN\<close> unless the map names a profile to override with, and
  \<open>addSources\<close> only adds sources whose profile type is not \<open>UNKNOWN\<close>.
\<close>

record ('img, 'hf) TileBuilder =
  map_config :: MapConfig
  image_sources :: "('img, 'hf) TileSource list"
  heightfield_sources :: "('img, 'hf) TileSource list"
  profileComputed :: bool
  dataProfile :: TileGridProfile

text \<open>
  \<open>std::vector::erase\<close> at an iterator: the element at that position is removed and the
  later elements move one place down. The loops below go on with the iterator as it is,
  which then designates the element that followed the erased one, or the end.
\<close>

definition erase :: "'a list \<Rightarrow> nat \<Rightarrow> 'a list" where
  "erase xs i = take i xs @ drop (Suc i) xs"

lemma length_erase: "i < length xs \<Longrightarrow> length (erase xs i) = length xs - 1"
  by (simp add: erase_def)

text \<open>
  The loop over \<open>image_sources\<close> (lines 117-142), with the iterator as an index: an
  unknown running profile is set from the source at hand; a source whose profile differs
  from the running profile is erased, unless the running profile is geodetic and the
  source's is Mercator.
\<close>

function image_sources_loop ::
  "TileGridProfile \<Rightarrow> ('img, 'hf) TileSource list \<Rightarrow> nat
     \<Rightarrow> TileGridProfile \<times> ('img, 'hf) TileSource list" where
  "image_sources_loop dp srcs itr =
     (if itr < length srcs then
        (if profileType dp = UNKNOWN then
           image_sources_loop (getProfile (srcs ! itr)) srcs (Suc itr)
         else if dp \<noteq> getProfile (srcs ! itr)
                 \<and> \<not> (profileType dp = GLOBAL_GEODETIC
                        \<and> profileType (getProfile (srcs ! itr)) = GLOBAL_MERCATOR) then
           image_sources_loop dp (erase srcs itr) itr
         else image_sources_loop dp srcs (Suc itr))
      else (dp, srcs))"
  by pat_completeness auto
termination
  by (relation "measure (\<lambda>(dp, srcs, itr). length srcs - itr)") (auto simp: length_erase)

declare image_sources_loop.simps [simp del]

text \<open>
  The loop over \<open>heightfield_sources\<close> (lines 144-163): the same, without the exception
  for Mercator sources.
\<close>

function heightfield_sources_loop ::
  "TileGridProfile \<Rightarrow> ('img, 'hf) TileSource list \<Rightarrow> nat
     \<Rightarrow> TileGridProfile \<times> ('img, 'hf) TileSource list" where
  "heightfield_sources_loop dp srcs itr =
     (if itr < length srcs then
        (if profileType dp = UNKNOWN then
           heightfield_sources_loop (getProfile (srcs ! itr)) srcs (Suc itr)
         else if dp \<noteq> getProfile (srcs ! itr) then
           heightfield_sources_loop dp (erase srcs itr) itr
         else heightfield_sources_loop dp srcs (Suc itr))
      else (dp, srcs))"
  by pat_completeness auto
termination
  by (relation "measure (\<lambda>(dp, srcs, itr). length srcs - itr)") (auto simp: length_erase)

declare heightfield_sources_loop.simps [simp del]

text \<open>
  \<open>TileBuilder::getDataProfile\<close>: the two loops run once, on the first call; later calls
  return the stored profile.
\<close>

definition getDataProfile ::
  "('img, 'hf) TileBuilder \<Rightarrow> TileGridProfile \<times> ('img, 'hf) TileBuilder" where
  "getDataProfile tb =
     (if \<not> profileComputed tb then
        (case image_sources_loop (dataProfile tb) (image_sources tb) 0 of
           (dp1, imgs) \<Rightarrow>
             (case heightfield_sources_loop dp1 (heightfield_sources tb) 0 of
                (dp2, hfs) \<Rightarrow>
                  (dp2, tb \<lparr> image_sources := imgs, heightfield_sources := hfs,
                             dataProfile := dp2, profileComputed := True \<rparr>)))
      else (dataProfile tb, tb))"


text \<open>
  The specification's compatibility of a source profile with the running result, as the
  image loop applies it: identical, or the running result geodetic-global and the source
  mercator-global.
\<close>

definition compatible_image :: "TileGridProfile \<Rightarrow> TileGridProfile \<Rightarrow> bool" where
  "compatible_image running p =
     (p = running \<or> (profileType running = GLOBAL_GEODETIC \<and> profileType p = GLOBAL_MERCATOR))"

subsection \<open>Cache reachability (MapFrame.cpp)\<close>

text \<open>
  What \<open>MapFrame::isCached\<close> reads of a layer. A cache policy answers \<open>isCacheOnly\<close> and
  \<open>isCacheDisabled\<close>; the classes behind them are declared in headers that are not among
  the sources, so the two answers are independent fields. A layer's tile source is
  present or null, and has a blacklist of keys. \<open>layer_isCached\<close> is
  \<open>TerrainLayer::isCached\<close>, the layer's own cache-presence check.
\<close>

record CachePolicy =
  isCacheOnly :: bool
  isCacheDisabled :: bool

record CacheSettings =
  cachePolicy :: CachePolicy

record TileBlacklist =
  contains :: "TileKey \<Rightarrow> bool"

record LayerTileSource =
  getBlacklist :: TileBlacklist

record TerrainLayer =
  getEnabled :: bool
  getCacheSettings :: CacheSettings
  mayHaveData :: "TileKey \<Rightarrow> bool"
  getTileSource :: "LayerTileSource option"
  layer_isCached :: "TileKey \<Rightarrow> bool"

text \<open>
  A layer of the frame: \<open>dynamic_cast<TerrainLayer*>\<close> finds a terrain layer or null.
\<close>

datatype Layer = Terrain TerrainLayer | NonTerrain

text \<open>
  The map behind the frame's weak pointer: \<open>map_lock\<close> is what \<open>_map.lock(map)\<close> finds
  (\<open>None\<close> when the map is gone), \<open>getCache\<close> the map's cache object or null;
  \<open>Map_t\<close> is the class \<open>Map\<close>.
\<close>

datatype Cache = Cache

record Map_t =
  getCache :: "Cache option"

record MapFrame =
  map_lock :: "Map_t option"
  layers :: "Layer list"

text \<open>
  The calls on a layer that the loop body makes, for the record of what was examined.
\<close>

datatype Probe =
  Q_getEnabled | Q_isCacheOnly | Q_isCacheDisabled | Q_mayHaveData
  | Q_getTileSource | Q_blacklist | Q_isCached

datatype LoopExit = Continue | ReturnFalse

text \<open>
  The body of the loop (lines 247-272) for a terrain layer: how it is left (\<open>continue\<close>,
  also by reaching its end, or \<open>return false\<close>) and the calls made on the layer, in order.
\<close>

definition layer_body :: "TileKey \<Rightarrow> TerrainLayer \<Rightarrow> LoopExit \<times> Probe list" where
  "layer_body key layer =
     (if \<not> getEnabled layer then (Continue, [Q_getEnabled])
      else if isCacheOnly (cachePolicy (getCacheSettings layer)) then
        (Continue, [Q_getEnabled, Q_isCacheOnly])
      else if isCacheDisabled (cachePolicy (getCacheSettings layer)) then
        (ReturnFalse, [Q_getEnabled, Q_isCacheOnly, Q_isCacheDisabled])
      else if \<not> mayHaveData layer key then
        (Continue, [Q_getEnabled, Q_isCacheOnly, Q_isCacheDisabled, Q_mayHaveData])
      else
        (case getTileSource layer of
           None \<Rightarrow>
             (Continue, [Q_getEnabled, Q_isCacheOnly, Q_isCacheDisabled, Q_mayHaveData,
                         Q_getTileSource])
         | Some source \<Rightarrow>
             if contains (getBlacklist source) key then
               (Continue, [Q_getEnabled, Q_isCacheOnly, Q_isCacheDisabled, Q_mayHaveData,
                           Q_getTileSource, Q_blacklist])
             else if \<not> layer_isCached layer key then
               (ReturnFalse, [Q_getEnabled, Q_isCacheOnly, Q_isCacheDisabled, Q_mayHaveData,
                              Q_getTileSource, Q_blacklist, Q_isCached])
             else
               (Continue, [Q_getEnabled, Q_isCacheOnly, Q_isCacheDisabled, Q_mayHaveData,
                           Q_getTileSource, Q_blacklist, Q_isCached])))"

text \<open>
  The loop over \<open>_layers\<close> (lines 242-275): the verdict and the calls made, each with the
  position of its layer in the vector.
\<close>

fun layers_loop :: "TileKey \<Rightarrow> nat \<Rightarrow> Layer list \<Rightarrow> bool \<times> (nat \<times> Probe) list" where
  "layers_loop key i [] = (True, [])"
| "layers_loop key i (NonTerrain # ls) = layers_loop key (Suc i) ls"
| "layers_loop key i (Terrain layer # ls) =
     (case layer_body key layer of
        (ReturnFalse, qs) \<Rightarrow> (False, map (Pair i) qs)
      | (Continue, qs) \<Rightarrow>
          (case layers_loop key (Suc i) ls of
             (verdict, later) \<Rightarrow> (verdict, map (Pair i) qs @ later)))"

text \<open>
The guard of line 239: the map is alive and has no cache object.
\<close>

definition no_map_cache :: "MapFrame \<Rightarrow> bool" where
  "no_map_cache mf =
     (case map_lock mf of
        None \<Rightarrow> False
      | Some m \<Rightarrow> (case getCache m of None \<Rightarrow> True | Some c \<Rightarrow> False))"

definition isCached :: "MapFrame \<Rightarrow> TileKey \<Rightarrow> bool \<times> (nat \<times> Probe) list" where
  "isCached mf key =
     (if no_map_cache mf then (False, []) else layers_loop key 0 (layers mf))"

text \<open>
  The specification's CacheReachabilityEvaluator. Its rules 1 to 7 as a table, in
  priority order: the check a rule consults, when the rule applies, and what it decides
  (rule 7 consults the layer's cache-presence check and forces false when the key is
  absent). The first applicable rule decides a layer; a layer no rule applies to is
  satisfied from the cache. The verdict is true when no layer forces false; evaluation
  covers the layers up to and including the first that forces false.
\<close>

datatype Outcome = Skip | ForceFalse | Satisfied

definition rules :: "(Probe \<times> (TileKey \<Rightarrow> TerrainLayer \<Rightarrow> bool) \<times> Outcome) list" where
  "rules =
     [(Q_getEnabled, \<lambda>key l. \<not> getEnabled l, Skip),
      (Q_isCacheOnly, \<lambda>key l. isCacheOnly (cachePolicy (getCacheSettings l)), Skip),
      (Q_isCacheDisabled, \<lambda>key l. isCacheDisabled (cachePolicy (getCacheSettings l)), ForceFalse),
      (Q_mayHaveData, \<lambda>key l. \<not> mayHaveData l key, Skip),
      (Q_getTileSource, \<lambda>key l. (case getTileSource l of None \<Rightarrow> True | Some s \<Rightarrow> False), Skip),
      (Q_blacklist,
         \<lambda>key l. (case getTileSource l of None \<Rightarrow> False | Some s \<Rightarrow> contains (getBlacklist s) key),
         Skip),
      (Q_isCached, \<lambda>key l. \<not> layer_isCached l key, ForceFalse)]"

fun first_applicable ::
  "(Probe \<times> (TileKey \<Rightarrow> TerrainLayer \<Rightarrow> bool) \<times> Outcome) list \<Rightarrow> TileKey \<Rightarrow> TerrainLayer
     \<Rightarrow> Outcome \<times> Probe list" where
  "first_applicable [] key l = (Satisfied, [])"
| "first_applicable ((q, applies, outcome) # rs) key l =
     (if applies key l then (outcome, [q])
      else (case first_applicable rs key l of (out, qs) \<Rightarrow> (out, q # qs)))"

definition layer_outcome :: "TileKey \<Rightarrow> Layer \<Rightarrow> Outcome \<times> Probe list" where
  "layer_outcome key l =
     (case l of NonTerrain \<Rightarrow> (Skip, []) | Terrain t \<Rightarrow> first_applicable rules key t)"

definition forces_false :: "TileKey \<Rightarrow> Layer \<Rightarrow> bool" where
  "forces_false key l = (case fst (layer_outcome key l) of ForceFalse \<Rightarrow> True | _ \<Rightarrow> False)"

definition isFullyCached :: "TileKey \<Rightarrow> Layer list \<Rightarrow> bool" where
  "isFullyCached key ls = list_all (\<lambda>l. \<not> forces_false key l) ls"

definition layers_examined :: "TileKey \<Rightarrow> Layer list \<Rightarrow> Layer list" where
  "layers_examined key ls =
     takeWhile (\<lambda>l. \<not> forces_false key l) ls @ take 1 (dropWhile (\<lambda>l. \<not> forces_false key l) ls)"

definition checks_made :: "TileKey \<Rightarrow> nat \<Rightarrow> Layer list \<Rightarrow> (nat \<times> Probe) list" where
  "checks_made key i ls =
     concat (map (\<lambda>(j, l). map (Pair j) (snd (layer_outcome key l)))
                 (enumerate i (layers_examined key ls)))"

subsection \<open>Example data\<close>

definition example_key :: TileKey where
  "example_key = \<lparr> level = 2, column = 3, row = 1 \<rparr>"

definition root_key :: TileKey where
  "root_key = \<lparr> level = 0, column = 0, row = 0 \<rparr>"

definition example_heightfield :: HeightField where
  "example_heightfield = \<lparr> getNumColumns = 2, getNumRows = 3, getHeightList = [1, 2, 3, 4, 5, 6] \<rparr>"

definition geodetic :: TileGridProfile where
  "geodetic = \<lparr> profileType = GLOBAL_GEODETIC, extents = (- 180, - 90, 180, 90) \<rparr>"

definition mercator :: TileGridProfile where
  "mercator = \<lparr> profileType = GLOBAL_MERCATOR,
                extents = (- 20037508, - 20037508, 20037508, 20037508) \<rparr>"

definition projected_custom :: TileGridProfile where
  "projected_custom = \<lparr> profileType = PROJECTED, extents = (0, 0, 1000, 1000) \<rparr>"

definition unknown_profile :: TileGridProfile where
  "unknown_profile = \<lparr> profileType = UNKNOWN, extents = (0, 0, 0, 0) \<rparr>"

definition coarse_source :: "(nat, HeightField) TileSource" where
  "coarse_source =
     \<lparr> getName = ''coarse'', getProfile = geodetic,
       createImage = (\<lambda>k. if level k = 0 then Some 7 else None),
       createHeightField = (\<lambda>k. if level k = 0 then Some example_heightfield else None) \<rparr>"

definition empty_source :: "(nat, HeightField) TileSource" where
  "empty_source =
     \<lparr> getName = ''empty'', getProfile = geodetic,
       createImage = (\<lambda>k. None), createHeightField = (\<lambda>k. None) \<rparr>"

definition named_source :: "string \<Rightarrow> TileGridProfile \<Rightarrow> (nat, HeightField) TileSource" where
  "named_source name p =
     \<lparr> getName = name, getProfile = p,
       createImage = (\<lambda>k. None), createHeightField = (\<lambda>k. None) \<rparr>"

definition example_extractChild :: "TileKey \<Rightarrow> HeightField \<Rightarrow> TileKey \<Rightarrow> nat \<Rightarrow> nat \<Rightarrow> HeightField" where
  "example_extractChild parent_key hf child_key width height =
     \<lparr> getNumColumns = width, getNumRows = height,
       getHeightList = replicate (width * height) 0 \<rparr>"

definition fresh_builder ::
  "CoordinateSystemType \<Rightarrow> (nat, HeightField) TileSource list
     \<Rightarrow> (nat, HeightField) TileSource list \<Rightarrow> (nat, HeightField) TileBuilder" where
  "fresh_builder cs images heightfields =
     \<lparr> map_config = \<lparr> getCoordinateSystemType = cs \<rparr>,
       image_sources = images, heightfield_sources = heightfields,
       profileComputed = False, dataProfile = unknown_profile \<rparr>"


definition example_layer :: "bool \<Rightarrow> bool \<Rightarrow> bool \<Rightarrow> bool \<Rightarrow> TerrainLayer" where
  "example_layer enabled cache_only cache_disabled cached =
     \<lparr> getEnabled = enabled,
       getCacheSettings =
         \<lparr> cachePolicy = \<lparr> isCacheOnly = cache_only, isCacheDisabled = cache_disabled \<rparr> \<rparr>,
       mayHaveData = (\<lambda>k. True),
       getTileSource = Some \<lparr> getBlacklist = \<lparr> contains = (\<lambda>k. False) \<rparr> \<rparr>,
       layer_isCached = (\<lambda>k. cached) \<rparr>"

definition frame_with_cache :: "Layer list \<Rightarrow> MapFrame" where
  "frame_with_cache ls = \<lparr> map_lock = Some \<lparr> getCache = Some Cache \<rparr>, layers = ls \<rparr>"

definition frame_without_cache :: "Layer list \<Rightarrow> MapFrame" where
  "frame_without_cache ls = \<lparr> map_lock = Some \<lparr> getCache = None \<rparr>, layers = ls \<rparr>"

section \<open>Properties of the ancestor walk\<close>

lemma ancestor_walk_chain:
  "ancestor_walk create (Some k) = (resolveAncestor create k, keys_tried create k)"
proof (induction "level k" arbitrary: k)
  case 0
  then have "createParentKey k = None"
    by (simp add: createParentKey_None_iff)
  then show ?case
    by (cases "create k")
       (simp_all add: resolveAncestor_def keys_tried_def has_data_def ancestor_chain.simps [of k])
next
  case (Suc n)
  then obtain p where p: "createParentKey k = Some p" "level p = n"
    by (cases "createParentKey k") (auto simp: createParentKey_None_iff dest: createParentKey_level_eq)
  have ih: "ancestor_walk create (Some p) = (resolveAncestor create p, keys_tried create p)"
    using Suc.hyps(1) [of p] p by simp
  show ?case
  proof (cases "create k")
    case None
    then show ?thesis
      using p ih
      by (simp add: resolveAncestor_def keys_tried_def has_data_def ancestor_chain.simps [of k])
  next
    case (Some r)
    then show ?thesis
      by (simp add: resolveAncestor_def keys_tried_def has_data_def ancestor_chain.simps [of k])
  qed
qed

lemma ancestor_chain_levels:
  "map level (ancestor_chain k) = rev [0..<Suc (level k)]"
proof (induction "level k" arbitrary: k)
  case 0
  then show ?case
    by (simp add: ancestor_chain.simps [of k] createParentKey_def)
next
  case (Suc n)
  then obtain p where p: "createParentKey k = Some p" "level p = n"
    by (cases "createParentKey k") (auto simp: createParentKey_None_iff dest: createParentKey_level_eq)
  have "map level (ancestor_chain p) = rev [0..<Suc n]"
    using Suc.hyps(1) [of p] p by simp
  then show ?case
    using p Suc.hyps(2) by (simp add: ancestor_chain.simps [of k] del: upt_Suc) (simp)
qed

lemma ancestor_chain_length: "length (ancestor_chain k) = Suc (level k)"
  using arg_cong [OF ancestor_chain_levels [of k], of length] by simp

lemma ancestor_chain_level_le:
  assumes "a \<in> set (ancestor_chain k)"
  shows "level a \<le> level k"
proof -
  have "level a \<in> set (map level (ancestor_chain k))"
    using assms by simp
  then show ?thesis
    unfolding ancestor_chain_levels by auto
qed

lemma parent_iter_level:
  "n \<le> level k \<Longrightarrow> \<exists>a. parent_iter n k = Some a \<and> level a = level k - n"
proof (induction n arbitrary: k)
  case 0
  then show ?case by simp
next
  case (Suc n)
  then obtain p where p: "createParentKey k = Some p" "Suc (level p) = level k"
    by (cases "createParentKey k") (auto simp: createParentKey_None_iff dest: createParentKey_level_eq)
  then have "n \<le> level p" using Suc.prems by simp
  from Suc.IH [OF this] show ?case using p by auto
qed

lemma parent_iter_exhausted: "parent_iter (Suc (level k)) k = None"
proof (induction "level k" arbitrary: k)
  case 0
  then show ?case by (simp add: createParentKey_def)
next
  case (Suc n)
  then obtain p where p: "createParentKey k = Some p" "level p = n"
    by (cases "createParentKey k") (auto simp: createParentKey_None_iff dest: createParentKey_level_eq)
  show ?case using Suc.hyps(1) [of p] p Suc.hyps(2) by simp
qed

lemma parent_iter_beyond: "level k < n \<Longrightarrow> parent_iter n k = None"
proof (induction n arbitrary: k)
  case 0
  then show ?case by simp
next
  case (Suc n)
  show ?case
  proof (cases "createParentKey k")
    case None
    then show ?thesis by simp
  next
    case (Some p)
    then have "level p < n" using Suc.prems createParentKey_level_eq [OF Some] by simp
    then show ?thesis using Suc.IH Some by simp
  qed
qed

lemma ancestor_chain_nth:
  "n \<le> level k \<Longrightarrow> parent_iter n k = Some (ancestor_chain k ! n)"
proof (induction n arbitrary: k)
  case 0
  then show ?case by (simp add: ancestor_chain.simps [of k])
next
  case (Suc n)
  then obtain p where p: "createParentKey k = Some p" "Suc (level p) = level k"
    by (cases "createParentKey k") (auto simp: createParentKey_None_iff dest: createParentKey_level_eq)
  then have "n \<le> level p" using Suc.prems by simp
  from Suc.IH [OF this] show ?case using p by (simp add: ancestor_chain.simps [of k])
qed

lemma ancestor_chain_set:
  "a \<in> set (ancestor_chain k) \<longleftrightarrow> (\<exists>n. parent_iter n k = Some a)"
proof
  assume "a \<in> set (ancestor_chain k)"
  then obtain n where n: "n < length (ancestor_chain k)" "ancestor_chain k ! n = a"
    by (auto simp: in_set_conv_nth)
  then have "n \<le> level k" by (simp add: ancestor_chain_length)
  then have "parent_iter n k = Some a" using ancestor_chain_nth n by simp
  then show "\<exists>n. parent_iter n k = Some a" ..
next
  assume "\<exists>n. parent_iter n k = Some a"
  then obtain n where n: "parent_iter n k = Some a" ..
  then have le: "n \<le> level k"
    using parent_iter_beyond [of k n] by (cases "n \<le> level k") auto
  then have "a = ancestor_chain k ! n" using ancestor_chain_nth [OF le] n by simp
  moreover have "n < length (ancestor_chain k)" using le by (simp add: ancestor_chain_length)
  ultimately show "a \<in> set (ancestor_chain k)" by simp
qed

lemma ancestor_chain_hd: "ancestor_chain k = k # tl (ancestor_chain k)"
  by (simp add: ancestor_chain.simps [of k])

lemma ancestor_chain_tl_level:
  "a \<in> set (tl (ancestor_chain k)) \<Longrightarrow> level a < level k"
proof -
  assume a: "a \<in> set (tl (ancestor_chain k))"
  show ?thesis
  proof (cases "createParentKey k")
    case None
    then show ?thesis using a by (simp add: ancestor_chain.simps [of k])
  next
    case (Some p)
    then have "a \<in> set (ancestor_chain p)" using a by (simp add: ancestor_chain.simps [of k])
    then have "level a \<le> level p" by (rule ancestor_chain_level_le)
    then show ?thesis using createParentKey_level [OF Some] by simp
  qed
qed

lemma ancestor_chain_sorted:
  "sorted_wrt (\<lambda>a b. level b < level a) (ancestor_chain k)"
proof -
  have "sorted_wrt (\<lambda>x y. y < x) (map level (ancestor_chain k))"
    unfolding ancestor_chain_levels by (simp add: sorted_wrt_rev del: upt_Suc)
  then show ?thesis by (simp add: sorted_wrt_map)
qed

lemma resolveAncestor_None_iff:
  "resolveAncestor create key = None \<longleftrightarrow> (\<forall>k \<in> set (ancestor_chain key). create k = None)"
proof -
  have "resolveAncestor create key = None \<longleftrightarrow>
        dropWhile (\<lambda>k. \<not> has_data create k) (ancestor_chain key) = []"
  proof (cases "dropWhile (\<lambda>k. \<not> has_data create k) (ancestor_chain key)")
    case Nil
    show ?thesis unfolding resolveAncestor_def Nil by simp
  next
    case (Cons k ks)
    then have "has_data create k"
      using hd_dropWhile [of "\<lambda>k. \<not> has_data create k" "ancestor_chain key"] by simp
    then show ?thesis using Cons
      by (auto simp: resolveAncestor_def has_data_def split: option.splits)
  qed
  also have "\<dots> \<longleftrightarrow> (\<forall>k \<in> set (ancestor_chain key). \<not> has_data create k)"
    by (simp add: dropWhile_eq_Nil_conv)
  also have "\<dots> \<longleftrightarrow> (\<forall>k \<in> set (ancestor_chain key). create k = None)"
    by (auto simp: has_data_def split: option.splits)
  finally show ?thesis .
qed

lemma resolveAncestor_Some:
  assumes "resolveAncestor create key = Some (r, k)"
  shows "k \<in> set (ancestor_chain key) \<and> create k = Some r"
proof -
  obtain ks where d: "dropWhile (\<lambda>k. \<not> has_data create k) (ancestor_chain key) = k # ks"
    and r: "create k = Some r"
    using assms by (auto simp: resolveAncestor_def split: list.splits)
  have "k \<in> set (dropWhile (\<lambda>k. \<not> has_data create k) (ancestor_chain key))"
    by (simp add: d)
  then have "k \<in> set (ancestor_chain key)"
    by (rule set_dropWhileD)
  then show ?thesis using r by simp
qed

lemma keys_tried_subset: "set (keys_tried create key) \<subseteq> set (ancestor_chain key)"
proof -
  have "set (take 1 (dropWhile (\<lambda>k. \<not> has_data create k) (ancestor_chain key)))
          \<subseteq> set (ancestor_chain key)"
    using set_take_subset set_dropWhileD by fastforce
  moreover have "set (takeWhile (\<lambda>k. \<not> has_data create k) (ancestor_chain key))
          \<subseteq> set (ancestor_chain key)"
    using set_takeWhileD by fastforce
  ultimately show ?thesis by (simp add: keys_tried_def)
qed

lemma keys_tried_prefix:
  "\<exists>zs. ancestor_chain key = keys_tried create key @ zs"
proof -
  let ?P = "\<lambda>k. \<not> has_data create k"
  have "ancestor_chain key = takeWhile ?P (ancestor_chain key) @ dropWhile ?P (ancestor_chain key)"
    by simp
  also have "dropWhile ?P (ancestor_chain key) =
      take 1 (dropWhile ?P (ancestor_chain key)) @ drop 1 (dropWhile ?P (ancestor_chain key))"
    by simp
  finally show ?thesis unfolding keys_tried_def by (metis append.assoc)
qed

lemma keys_tried_length: "length (keys_tried create key) \<le> Suc (level key)"
proof -
  obtain zs where "ancestor_chain key = keys_tried create key @ zs"
    using keys_tried_prefix by blast
  then have "length (ancestor_chain key) = length (keys_tried create key) + length zs"
    by (metis length_append)
  then show ?thesis by (simp add: ancestor_chain_length)
qed

lemma keys_tried_sorted:
  "sorted_wrt (\<lambda>a b. level b < level a) (keys_tried create key)"
proof -
  obtain zs where "ancestor_chain key = keys_tried create key @ zs"
    using keys_tried_prefix by blast
  then have "sorted_wrt (\<lambda>a b. level b < level a) (keys_tried create key @ zs)"
    using ancestor_chain_sorted [of key] by simp
  then show ?thesis by (simp add: sorted_wrt_append)
qed

lemma keys_tried_None:
  "resolveAncestor create key = None \<Longrightarrow> keys_tried create key = ancestor_chain key"
proof -
  assume "resolveAncestor create key = None"
  then have "\<forall>k \<in> set (ancestor_chain key). \<not> has_data create k"
    by (simp add: resolveAncestor_None_iff has_data_def)
  then show ?thesis by (simp add: keys_tried_def dropWhile_eq_Nil_conv[THEN iffD2])
qed

lemma resolveAncestor_direct:
  "create key = Some r \<Longrightarrow> resolveAncestor create key = Some (r, key) \<and> keys_tried create key = [key]"
  by (simp add: resolveAncestor_def keys_tried_def has_data_def ancestor_chain.simps [of key])

lemma resolveAncestor_not_direct:
  assumes "create key = None" "resolveAncestor create key = Some (r, k)"
  shows "level k < level key"
proof -
  obtain ks where d: "dropWhile (\<lambda>k. \<not> has_data create k) (ancestor_chain key) = k # ks"
    using assms(2) by (auto simp: resolveAncestor_def split: list.splits)
  have "\<not> has_data create key" using assms(1) by (simp add: has_data_def)
  then have "dropWhile (\<lambda>k. \<not> has_data create k) (ancestor_chain key)
             = dropWhile (\<lambda>k. \<not> has_data create k) (tl (ancestor_chain key))"
    by (subst ancestor_chain_hd) simp
  then have "dropWhile (\<lambda>k. \<not> has_data create k) (tl (ancestor_chain key)) = k # ks"
    using d by (simp only:)
  then have "k \<in> set (dropWhile (\<lambda>k. \<not> has_data create k) (tl (ancestor_chain key)))"
    by (simp only: list.set_intros(1))
  then have "k \<in> set (tl (ancestor_chain key))"
    by (rule set_dropWhileD)
  then show ?thesis by (rule ancestor_chain_tl_level)
qed

lemma createValidImage_resolve:
  "createValidImage ts key out =
     (case resolveAncestor (createImage ts) key of
        None \<Rightarrow> (False, out, keys_tried (createImage ts) key)
      | Some (img, k) \<Rightarrow> (True, (Some img, Some k), keys_tried (createImage ts) key))"
proof (cases "createImage ts key")
  case (Some img)
  then show ?thesis
    using resolveAncestor_direct [of "createImage ts" key img]
    by (simp add: createValidImage_def)
next
  case None
  obtain found asked where w: "ancestor_walk (createImage ts) (createParentKey key) = (found, asked)"
    by (cases "ancestor_walk (createImage ts) (createParentKey key)")
  have "ancestor_walk (createImage ts) (Some key) = (found, key # asked)"
    using None w by simp
  then have "(resolveAncestor (createImage ts) key, keys_tried (createImage ts) key) = (found, key # asked)"
    by (simp only: ancestor_walk_chain)
  then have "resolveAncestor (createImage ts) key = found"
    and "keys_tried (createImage ts) key = key # asked"
    by simp_all
  then show ?thesis
    using None w by (cases found) (auto simp: createValidImage_def)
qed

lemma createValidHeightField_resolve:
  "createValidHeightField ex ts key =
     (case resolveAncestor (createHeightField ts) key of
        None \<Rightarrow> (None, keys_tried (createHeightField ts) key)
      | Some (hf, k) \<Rightarrow>
          (if k = key then Some hf else Some (ex k hf key (getNumColumns hf) (getNumRows hf)),
           keys_tried (createHeightField ts) key))"
proof (cases "createHeightField ts key")
  case (Some hf)
  then show ?thesis
    using resolveAncestor_direct [of "createHeightField ts" key hf]
    by (simp add: createValidHeightField_def)
next
  case None
  obtain found asked where w: "ancestor_walk (createHeightField ts) (createParentKey key) = (found, asked)"
    by (cases "ancestor_walk (createHeightField ts) (createParentKey key)")
  have "ancestor_walk (createHeightField ts) (Some key) = (found, key # asked)"
    using None w by simp
  then have "(resolveAncestor (createHeightField ts) key, keys_tried (createHeightField ts) key)
      = (found, key # asked)"
    by (simp only: ancestor_walk_chain)
  then have f: "resolveAncestor (createHeightField ts) key = found"
    and "keys_tried (createHeightField ts) key = key # asked"
    by simp_all
  moreover have "k \<noteq> key" if "found = Some (hf, k)" for hf k
    using resolveAncestor_not_direct [of "createHeightField ts" key hf k] None f that by auto
  ultimately show ?thesis
    using None w by (cases found) (auto simp: createValidHeightField_def)
qed

lemma createValidImage_asked:
  "snd (snd (createValidImage ts key out)) = keys_tried (createImage ts) key"
  by (simp add: createValidImage_resolve split: option.splits)

lemma createValidHeightField_asked:
  "snd (createValidHeightField ex ts key) = keys_tried (createHeightField ts) key"
  by (simp add: createValidHeightField_resolve split: option.splits)

lemma example_chain:
  "ancestor_chain example_key =
     [example_key, \<lparr> level = 1, column = 1, row = 0 \<rparr>, \<lparr> level = 0, column = 0, row = 0 \<rparr>]"
  by (simp add: example_key_def ancestor_chain.simps createParentKey_def)

lemma example_resolve_image:
  "resolveAncestor (createImage coarse_source) example_key = Some (7, root_key)"
  by (simp add: resolveAncestor_def example_chain has_data_def root_key_def)
     (simp add: coarse_source_def example_key_def)

lemma example_keys_tried_image:
  "keys_tried (createImage coarse_source) example_key =
     [example_key, \<lparr> level = 1, column = 1, row = 0 \<rparr>, root_key]"
  by (simp add: keys_tried_def example_chain has_data_def root_key_def)
     (simp add: coarse_source_def example_key_def)

lemma example_resolve_heightfield:
  "resolveAncestor (createHeightField coarse_source) example_key = Some (example_heightfield, root_key)"
  by (simp add: resolveAncestor_def example_chain has_data_def root_key_def)
     (simp add: coarse_source_def example_key_def)

lemma example_createValidImage:
  "createValidImage coarse_source example_key (None, None) =
     (True, (Some 7, Some root_key), [example_key, \<lparr> level = 1, column = 1, row = 0 \<rparr>, root_key])"
  by (simp only: createValidImage_resolve example_resolve_image example_keys_tried_image
        option.case prod.case)

section \<open>Properties of profile reconciliation\<close>

lemma erase_take: "i \<le> length xs \<Longrightarrow> take i (erase xs i) = take i xs"
  by (simp add: erase_def)

lemma erase_drop: "i \<le> length xs \<Longrightarrow> drop i (erase xs i) = drop (Suc i) xs"
  by (simp add: erase_def)

lemma compatible_image_refl: "compatible_image p p"
  by (simp add: compatible_image_def)

lemma image_sources_loop_known:
  "profileType dp \<noteq> UNKNOWN \<Longrightarrow> i \<le> length srcs \<Longrightarrow>
   image_sources_loop dp srcs i =
     (dp, take i srcs @ filter (\<lambda>s. compatible_image dp (getProfile s)) (drop i srcs))"
proof (induction dp srcs i rule: image_sources_loop.induct)
  case (1 dp srcs itr)
  show ?case
  proof (cases "itr < length srcs")
    case False
    then show ?thesis using "1.prems" by (subst image_sources_loop.simps) simp
  next
    case True
    have d: "drop itr srcs = srcs ! itr # drop (Suc itr) srcs"
      using True by (simp add: Cons_nth_drop_Suc)
    show ?thesis
    proof (cases "compatible_image dp (getProfile (srcs ! itr))")
      case False
      then have rm: "dp \<noteq> getProfile (srcs ! itr)
                 \<and> \<not> (profileType dp = GLOBAL_GEODETIC
                        \<and> profileType (getProfile (srcs ! itr)) = GLOBAL_MERCATOR)"
        by (auto simp: compatible_image_def)
      have le: "itr \<le> length (erase srcs itr)"
        using True by (simp add: length_erase)
      have "image_sources_loop dp srcs itr = image_sources_loop dp (erase srcs itr) itr"
        using True "1.prems"(1) rm by (subst image_sources_loop.simps) simp
      also have "\<dots> = (dp, take itr (erase srcs itr)
           @ filter (\<lambda>s. compatible_image dp (getProfile s)) (drop itr (erase srcs itr)))"
        using "1.IH"(2) [OF True "1.prems"(1) rm "1.prems"(1) le] .
      finally show ?thesis
        using True False by (simp add: erase_take erase_drop d)
    next
      case c: True
      then have keep: "\<not> (dp \<noteq> getProfile (srcs ! itr)
                 \<and> \<not> (profileType dp = GLOBAL_GEODETIC
                        \<and> profileType (getProfile (srcs ! itr)) = GLOBAL_MERCATOR))"
        by (auto simp: compatible_image_def)
      have le: "Suc itr \<le> length srcs" using True by simp
      have "image_sources_loop dp srcs itr = image_sources_loop dp srcs (Suc itr)"
        using True "1.prems"(1) keep by (subst image_sources_loop.simps) auto
      also have "\<dots> = (dp, take (Suc itr) srcs
           @ filter (\<lambda>s. compatible_image dp (getProfile s)) (drop (Suc itr) srcs))"
        using "1.IH"(3) [OF True "1.prems"(1) keep "1.prems"(1) le] .
      finally show ?thesis
        using True c by (simp add: d take_Suc_conv_app_nth)
    qed
  qed
qed

lemma heightfield_sources_loop_known:
  "profileType dp \<noteq> UNKNOWN \<Longrightarrow> i \<le> length srcs \<Longrightarrow>
   heightfield_sources_loop dp srcs i =
     (dp, take i srcs @ filter (\<lambda>s. getProfile s = dp) (drop i srcs))"
proof (induction dp srcs i rule: heightfield_sources_loop.induct)
  case (1 dp srcs itr)
  show ?case
  proof (cases "itr < length srcs")
    case False
    then show ?thesis using "1.prems" by (subst heightfield_sources_loop.simps) simp
  next
    case True
    have d: "drop itr srcs = srcs ! itr # drop (Suc itr) srcs"
      using True by (simp add: Cons_nth_drop_Suc)
    show ?thesis
    proof (cases "getProfile (srcs ! itr) = dp")
      case False
      then have rm: "dp \<noteq> getProfile (srcs ! itr)" by auto
      have le: "itr \<le> length (erase srcs itr)"
        using True by (simp add: length_erase)
      have "heightfield_sources_loop dp srcs itr = heightfield_sources_loop dp (erase srcs itr) itr"
        using True "1.prems"(1) rm by (subst heightfield_sources_loop.simps) simp
      also have "\<dots> = (dp, take itr (erase srcs itr)
           @ filter (\<lambda>s. getProfile s = dp) (drop itr (erase srcs itr)))"
        using "1.IH"(2) [OF True "1.prems"(1) rm "1.prems"(1) le] .
      finally show ?thesis
        using True False by (simp add: erase_take erase_drop d)
    next
      case c: True
      then have keep: "\<not> dp \<noteq> getProfile (srcs ! itr)" by auto
      have le: "Suc itr \<le> length srcs" using True by simp
      have "heightfield_sources_loop dp srcs itr = heightfield_sources_loop dp srcs (Suc itr)"
        using True "1.prems"(1) keep by (subst heightfield_sources_loop.simps) auto
      also have "\<dots> = (dp, take (Suc itr) srcs
           @ filter (\<lambda>s. getProfile s = dp) (drop (Suc itr) srcs))"
        using "1.IH"(3) [OF True "1.prems"(1) keep "1.prems"(1) le] .
      finally show ?thesis
        using True c by (simp add: d take_Suc_conv_app_nth)
    qed
  qed
qed

lemma image_sources_loop_Nil: "image_sources_loop dp [] 0 = (dp, [])"
  by (subst image_sources_loop.simps) simp


lemma image_sources_loop_seed:
  assumes "profileType dp = UNKNOWN" "profileType (getProfile s) \<noteq> UNKNOWN"
  shows "image_sources_loop dp (s # ss) 0 =
     (getProfile s, filter (\<lambda>t. compatible_image (getProfile s) (getProfile t)) (s # ss))"
proof -
  have "image_sources_loop dp (s # ss) 0 = image_sources_loop (getProfile s) (s # ss) (Suc 0)"
    using assms(1) by (subst image_sources_loop.simps) simp
  also have "\<dots> = (getProfile s, take (Suc 0) (s # ss)
       @ filter (\<lambda>t. compatible_image (getProfile s) (getProfile t)) (drop (Suc 0) (s # ss)))"
    by (rule image_sources_loop_known) (simp_all add: assms(2))
  finally show ?thesis by (simp add: compatible_image_refl)
qed

lemma heightfield_sources_loop_seed:
  assumes "profileType dp = UNKNOWN" "profileType (getProfile s) \<noteq> UNKNOWN"
  shows "heightfield_sources_loop dp (s # ss) 0 =
     (getProfile s, filter (\<lambda>t. getProfile t = getProfile s) (s # ss))"
proof -
  have "heightfield_sources_loop dp (s # ss) 0 = heightfield_sources_loop (getProfile s) (s # ss) (Suc 0)"
    using assms(1) by (subst heightfield_sources_loop.simps) simp
  also have "\<dots> = (getProfile s, take (Suc 0) (s # ss)
       @ filter (\<lambda>t. getProfile t = getProfile s) (drop (Suc 0) (s # ss)))"
    by (rule heightfield_sources_loop_known) (simp_all add: assms(2))
  finally show ?thesis by simp
qed


lemma getDataProfile_fresh:
  assumes "\<not> profileComputed tb" "profileType (dataProfile tb) = UNKNOWN"
    and "\<forall>s \<in> set (image_sources tb @ heightfield_sources tb). profileType (getProfile s) \<noteq> UNKNOWN"
    and "image_sources tb @ heightfield_sources tb = first # rest"
  shows "getDataProfile tb =
     (getProfile first,
      tb \<lparr> image_sources :=
             filter (\<lambda>t. compatible_image (getProfile first) (getProfile t)) (image_sources tb),
           heightfield_sources :=
             filter (\<lambda>t. getProfile t = getProfile first) (heightfield_sources tb),
           dataProfile := getProfile first, profileComputed := True \<rparr>)"
proof (cases "image_sources tb")
  case Nil
  then have h: "heightfield_sources tb = first # rest" using assms(4) by simp
  have k: "profileType (getProfile first) \<noteq> UNKNOWN" using assms(3) h by simp
  show ?thesis
    using assms(1) Nil
    by (simp add: getDataProfile_def image_sources_loop_Nil h
        heightfield_sources_loop_seed [OF assms(2) k])
next
  case (Cons s ss)
  then have f: "first = s" using assms(4) by simp
  have k: "profileType (getProfile s) \<noteq> UNKNOWN" using assms(3) Cons by simp
  show ?thesis
    using assms(1) Cons f k
    by (simp add: getDataProfile_def image_sources_loop_seed [OF assms(2) k]
        heightfield_sources_loop_known)
qed




lemmas example_profile_defs =
  fresh_builder_def named_source_def geodetic_def mercator_def projected_custom_def
  unknown_profile_def


section \<open>Properties of cache reachability\<close>

lemma layer_body_rules:
  "layer_body key t =
     (case first_applicable rules key t of
        (ForceFalse, qs) \<Rightarrow> (ReturnFalse, qs)
      | (Skip, qs) \<Rightarrow> (Continue, qs)
      | (Satisfied, qs) \<Rightarrow> (Continue, qs))"
  by (simp add: layer_body_def rules_def split: option.splits)

lemma layers_loop_spec:
  "layers_loop key i ls = (isFullyCached key ls, checks_made key i ls)"
proof (induction ls arbitrary: i)
  case Nil
  then show ?case
    by (simp add: isFullyCached_def checks_made_def layers_examined_def)
next
  case (Cons l ls)
  show ?case
  proof (cases l)
    case NonTerrain
    then show ?thesis
      using Cons.IH [of "Suc i"]
      by (simp add: isFullyCached_def checks_made_def layers_examined_def forces_false_def
          layer_outcome_def)
  next
    case (Terrain t)
    obtain out qs where f: "first_applicable rules key t = (out, qs)"
      by (cases "first_applicable rules key t")
    show ?thesis
      using Cons.IH [of "Suc i"] Terrain f
      by (cases out)
         (simp_all add: layer_body_rules isFullyCached_def checks_made_def layers_examined_def
           forces_false_def layer_outcome_def)
  qed
qed

lemma isCached_verdict:
  "fst (isCached mf key) = (\<not> no_map_cache mf \<and> isFullyCached key (layers mf))"
  by (simp add: isCached_def layers_loop_spec)

lemma forces_false_cache_disabled:
  assumes "getEnabled t" "\<not> isCacheOnly (cachePolicy (getCacheSettings t))"
    "isCacheDisabled (cachePolicy (getCacheSettings t))"
  shows "forces_false key (Terrain t)"
  using assms by (simp add: forces_false_def layer_outcome_def rules_def)

lemma not_forces_false_disabled:
  "\<not> getEnabled t \<Longrightarrow> \<not> forces_false key (Terrain t)"
  by (simp add: forces_false_def layer_outcome_def rules_def)

lemma not_forces_false_NonTerrain: "\<not> forces_false key NonTerrain"
  by (simp add: forces_false_def layer_outcome_def)

section \<open>The claims\<close>

text \<open>
  C1 (as amended). For every tile key and every layer list, when the map is gone or has a
  map-level cache object, \<open>MapFrame::isCached\<close> evaluates each terrain layer's rules in the
  priority order of the rule table, the first applicable rule deciding that layer:
  (1) disabled, skip; (2) cache-only, skip; (3) cache-disabled, the verdict is false and
  evaluation stops; (4) no data possible at the key, skip; (5) no tile source, skip;
  (6) key blacklisted, skip; (7) otherwise the layer's cache-presence check, and an absent
  key makes the verdict false and stops evaluation. The verdict is true when no layer
  forced false, and the calls made are those of the rules up to the deciding one, for the
  layers up to the first that forces false. Layers that are not terrain layers are passed
  over.
\<close>

theorem isCached_rule_order:
  assumes "\<not> no_map_cache mf"
  shows "isCached mf key = (isFullyCached key (layers mf), checks_made key 0 (layers mf))"
  using assms by (simp add: isCached_def layers_loop_spec)

text \<open>
  As stated for every layer list the claim fails: with a live map that has no cache
  object the verdict is false although no layer forced false.
\<close>

theorem isCached_rule_order_counterexample:
  "isFullyCached root_key [] = True
   \<and> fst (isCached \<lparr> map_lock = Some \<lparr> getCache = None \<rparr>, layers = [] \<rparr> root_key) = False"
  by (simp add: isFullyCached_def isCached_def no_map_cache_def)

theorem isCached_rule_order_witness:
  "\<not> no_map_cache (frame_with_cache
       [Terrain (example_layer False False True False),
        Terrain (example_layer True True True False),
        NonTerrain,
        Terrain (example_layer True False False True),
        Terrain (example_layer True False True True),
        Terrain (example_layer True False False False)])
   \<and> isCached (frame_with_cache
       [Terrain (example_layer False False True False),
        Terrain (example_layer True True True False),
        NonTerrain,
        Terrain (example_layer True False False True),
        Terrain (example_layer True False True True),
        Terrain (example_layer True False False False)]) example_key
     = (False,
        [(0, Q_getEnabled),
         (1, Q_getEnabled), (1, Q_isCacheOnly),
         (3, Q_getEnabled), (3, Q_isCacheOnly), (3, Q_isCacheDisabled), (3, Q_mayHaveData),
         (3, Q_getTileSource), (3, Q_blacklist), (3, Q_isCached),
         (4, Q_getEnabled), (4, Q_isCacheOnly), (4, Q_isCacheDisabled)])
   \<and> isCached (frame_with_cache [Terrain (example_layer True False False True)]) example_key
     = (True,
        [(0, Q_getEnabled), (0, Q_isCacheOnly), (0, Q_isCacheDisabled), (0, Q_mayHaveData),
         (0, Q_getTileSource), (0, Q_blacklist), (0, Q_isCached)])
   \<and> isCached (frame_with_cache [Terrain (example_layer True False False False)]) example_key
     = (False,
        [(0, Q_getEnabled), (0, Q_isCacheOnly), (0, Q_isCacheDisabled), (0, Q_mayHaveData),
         (0, Q_getTileSource), (0, Q_blacklist), (0, Q_isCached)])"
proof -
  have h: "\<not> no_map_cache (frame_with_cache ls)" for ls
    by (simp add: no_map_cache_def frame_with_cache_def)
  have l: "layers (frame_with_cache ls) = ls" for ls
    by (simp add: frame_with_cache_def)
  note defs = l isFullyCached_def checks_made_def layers_examined_def forces_false_def
    layer_outcome_def rules_def example_layer_def enumerate_eq_zip
  have 1: "isCached (frame_with_cache
       [Terrain (example_layer False False True False),
        Terrain (example_layer True True True False),
        NonTerrain,
        Terrain (example_layer True False False True),
        Terrain (example_layer True False True True),
        Terrain (example_layer True False False False)]) example_key
     = (False,
        [(0, Q_getEnabled),
         (1, Q_getEnabled), (1, Q_isCacheOnly),
         (3, Q_getEnabled), (3, Q_isCacheOnly), (3, Q_isCacheDisabled), (3, Q_mayHaveData),
         (3, Q_getTileSource), (3, Q_blacklist), (3, Q_isCached),
         (4, Q_getEnabled), (4, Q_isCacheOnly), (4, Q_isCacheDisabled)])"
    by (simp add: isCached_rule_order [OF h] defs upt_rec)
  have 2: "isCached (frame_with_cache [Terrain (example_layer True False False True)]) example_key
     = (True,
        [(0, Q_getEnabled), (0, Q_isCacheOnly), (0, Q_isCacheDisabled), (0, Q_mayHaveData),
         (0, Q_getTileSource), (0, Q_blacklist), (0, Q_isCached)])"
    by (simp add: isCached_rule_order [OF h] defs)
  have 3: "isCached (frame_with_cache [Terrain (example_layer True False False False)]) example_key
     = (False,
        [(0, Q_getEnabled), (0, Q_isCacheOnly), (0, Q_isCacheDisabled), (0, Q_mayHaveData),
         (0, Q_getTileSource), (0, Q_blacklist), (0, Q_isCached)])"
    by (simp add: isCached_rule_order [OF h] defs)
  from h 1 2 3 show ?thesis by simp
qed

text \<open>
  C2 (as amended). On a builder whose profile is not yet set and whose sources all have a
  known profile, \<open>getDataProfile\<close> returns the profile of the first source (image sources
  come before heightfield sources) and never changes it afterwards. It keeps exactly the
  image sources whose profile is identical to the result, or mercator-global while the
  result is geodetic-global; it keeps exactly the heightfield sources whose profile is
  identical to the result. The first source is kept. In particular, image sources
  [geodetic, mercator, geodetic] are all kept with the final profile geodetic-global, and
  of image sources [geodetic, projected-custom] the projected one is removed.
\<close>

theorem getDataProfile_reconciles:
  assumes "\<not> profileComputed tb" and "profileType (dataProfile tb) = UNKNOWN"
    and "\<forall>s \<in> set (image_sources tb @ heightfield_sources tb). profileType (getProfile s) \<noteq> UNKNOWN"
    and "image_sources tb @ heightfield_sources tb = first # rest"
  shows "fst (getDataProfile tb) = getProfile first
    \<and> image_sources (snd (getDataProfile tb)) =
        filter (\<lambda>s. compatible_image (getProfile first) (getProfile s)) (image_sources tb)
    \<and> heightfield_sources (snd (getDataProfile tb)) =
        filter (\<lambda>s. getProfile s = getProfile first) (heightfield_sources tb)
    \<and> first \<in> set (image_sources (snd (getDataProfile tb))
                      @ heightfield_sources (snd (getDataProfile tb)))
    \<and> dataProfile (snd (getDataProfile tb)) = getProfile first"
proof -
  note g = getDataProfile_fresh [OF assms]
  have "first \<in> set (image_sources tb @ heightfield_sources tb)"
    by (simp only: assms(4) list.set_intros(1))
  then have "first \<in> set (filter (\<lambda>s. compatible_image (getProfile first) (getProfile s)) (image_sources tb)
      @ filter (\<lambda>s. getProfile s = getProfile first) (heightfield_sources tb))"
    by (auto simp: compatible_image_refl)
  then show ?thesis by (simp add: g)
qed

text \<open>
  As stated for every source the claim fails: a mercator-global heightfield source is
  removed although the running result is geodetic-global.
\<close>

theorem getDataProfile_heightfield_counterexample:
  "profileType (fst (getDataProfile
       (fresh_builder CSTYPE_GEOCENTRIC [named_source ''a'' geodetic] [named_source ''b'' mercator])))
     = GLOBAL_GEODETIC
   \<and> profileType (getProfile (named_source ''b'' mercator)) = GLOBAL_MERCATOR
   \<and> map getName (heightfield_sources (snd (getDataProfile
       (fresh_builder CSTYPE_GEOCENTRIC [named_source ''a'' geodetic] [named_source ''b'' mercator]))))
     = []"
  by (simp add: getDataProfile_def fresh_builder_def named_source_def geodetic_def mercator_def
      unknown_profile_def image_sources_loop.simps heightfield_sources_loop.simps erase_def)

theorem getDataProfile_reconciles_witness:
  "fst (getDataProfile (fresh_builder CSTYPE_GEOCENTRIC
        [named_source ''a'' geodetic, named_source ''b'' mercator, named_source ''c'' geodetic] []))
     = geodetic
   \<and> map getName (image_sources (snd (getDataProfile (fresh_builder CSTYPE_GEOCENTRIC
        [named_source ''a'' geodetic, named_source ''b'' mercator, named_source ''c'' geodetic] []))))
     = [''a'', ''b'', ''c'']
   \<and> fst (getDataProfile (fresh_builder CSTYPE_PROJECTED
        [named_source ''a'' geodetic, named_source ''p'' projected_custom] []))
     = geodetic
   \<and> map getName (image_sources (snd (getDataProfile (fresh_builder CSTYPE_PROJECTED
        [named_source ''a'' geodetic, named_source ''p'' projected_custom] []))))
     = [''a'']
   \<and> map getName (heightfield_sources (snd (getDataProfile (fresh_builder CSTYPE_GEOCENTRIC
        [] [named_source ''h'' geodetic, named_source ''m'' mercator, named_source ''g'' geodetic]))))
     = [''h'', ''g'']"
proof -
  let ?b1 = "fresh_builder CSTYPE_GEOCENTRIC
        [named_source ''a'' geodetic, named_source ''b'' mercator, named_source ''c'' geodetic] []"
  let ?b2 = "fresh_builder CSTYPE_PROJECTED
        [named_source ''a'' geodetic, named_source ''p'' projected_custom] []"
  let ?b3 = "fresh_builder CSTYPE_GEOCENTRIC
        [] [named_source ''h'' geodetic, named_source ''m'' mercator, named_source ''g'' geodetic]"
  have 1: "fst (getDataProfile ?b1) = geodetic
      \<and> map getName (image_sources (snd (getDataProfile ?b1))) = [''a'', ''b'', ''c'']"
    using getDataProfile_reconciles [of ?b1 "named_source ''a'' geodetic"
        "[named_source ''b'' mercator, named_source ''c'' geodetic]"]
    by (simp add: example_profile_defs compatible_image_def)
  have 2: "fst (getDataProfile ?b2) = geodetic
      \<and> map getName (image_sources (snd (getDataProfile ?b2))) = [''a'']"
    using getDataProfile_reconciles [of ?b2 "named_source ''a'' geodetic"
        "[named_source ''p'' projected_custom]"]
    by (simp add: example_profile_defs compatible_image_def)
  have 3: "map getName (heightfield_sources (snd (getDataProfile ?b3))) = [''h'', ''g'']"
    using getDataProfile_reconciles [of ?b3 "named_source ''h'' geodetic"
        "[named_source ''m'' mercator, named_source ''g'' geodetic]"]
    by (simp add: example_profile_defs compatible_image_def)
  from 1 2 3 show ?thesis by simp
qed

text \<open>
  C3 (as amended). For every tile key: if the layer list contains an enabled terrain layer
  whose cache policy is cache-disabled and not cache-only, \<open>isCached\<close> returns false
  whatever the other layers and the map are; and when the map is gone or has a map-level
  cache object, \<open>isCached\<close> returns true for the empty layer list (examining nothing) and
  for a layer list whose terrain layers are all disabled.
\<close>

theorem isCached_cache_disabled_layer:
  "(Terrain t \<in> set (layers mf) \<and> getEnabled t
       \<and> \<not> isCacheOnly (cachePolicy (getCacheSettings t))
       \<and> isCacheDisabled (cachePolicy (getCacheSettings t))
     \<longrightarrow> fst (isCached mf key) = False)
   \<and> (\<not> no_map_cache mf \<and> layers mf = [] \<longrightarrow> isCached mf key = (True, []))
   \<and> (\<not> no_map_cache mf \<and> (\<forall>t. Terrain t \<in> set (layers mf) \<longrightarrow> \<not> getEnabled t)
     \<longrightarrow> fst (isCached mf key) = True)"
proof (intro conjI impI)
  assume a: "Terrain t \<in> set (layers mf) \<and> getEnabled t
       \<and> \<not> isCacheOnly (cachePolicy (getCacheSettings t))
       \<and> isCacheDisabled (cachePolicy (getCacheSettings t))"
  then have "forces_false key (Terrain t)"
    by (simp add: forces_false_cache_disabled)
  then have "\<not> isFullyCached key (layers mf)"
    using a by (auto simp: isFullyCached_def list_all_iff)
  then show "fst (isCached mf key) = False"
    by (simp add: isCached_verdict)
next
  assume "\<not> no_map_cache mf \<and> layers mf = []"
  then show "isCached mf key = (True, [])"
    by (simp add: isCached_def)
next
  assume a: "\<not> no_map_cache mf \<and> (\<forall>t. Terrain t \<in> set (layers mf) \<longrightarrow> \<not> getEnabled t)"
  have "\<not> forces_false key l" if m: "l \<in> set (layers mf)" for l
  proof (cases l)
    case (Terrain t)
    then have "\<not> getEnabled t" using a m by blast
    then show ?thesis using Terrain by (simp add: not_forces_false_disabled)
  next
    case NonTerrain
    then show ?thesis by (simp add: not_forces_false_NonTerrain)
  qed
  then have "isFullyCached key (layers mf)"
    by (simp add: isFullyCached_def list_all_iff)
  then show "fst (isCached mf key) = True"
    using a by (simp add: isCached_verdict)
qed

text \<open>
  As stated the second half fails: with a live map that has no cache object the verdict
  is false although every layer is disabled.
\<close>

theorem isCached_cache_disabled_layer_counterexample:
  "\<not> getEnabled (example_layer False False False True)
   \<and> fst (isCached (frame_without_cache [Terrain (example_layer False False False True)]) example_key)
       = False"
  by (simp add: example_layer_def isCached_def no_map_cache_def frame_without_cache_def)

theorem isCached_cache_disabled_layer_witness:
  "fst (isCached (frame_with_cache
        [Terrain (example_layer True False False True),
         Terrain (example_layer True False True True)]) example_key) = False
   \<and> fst (isCached (frame_without_cache
        [Terrain (example_layer True False True True)]) example_key) = False
   \<and> isCached (frame_with_cache []) example_key = (True, [])
   \<and> fst (isCached (frame_with_cache
        [Terrain (example_layer False False True False), NonTerrain,
         Terrain (example_layer False False False False)]) example_key) = True"
proof -
  have h: "\<not> no_map_cache (frame_with_cache ls)" for ls
    by (simp add: no_map_cache_def frame_with_cache_def)
  have p: "getEnabled (example_layer True False True True)
       \<and> \<not> isCacheOnly (cachePolicy (getCacheSettings (example_layer True False True True)))
       \<and> isCacheDisabled (cachePolicy (getCacheSettings (example_layer True False True True)))"
    by (simp add: example_layer_def)
  have 1: "fst (isCached (frame_with_cache
        [Terrain (example_layer True False False True),
         Terrain (example_layer True False True True)]) example_key) = False"
    by (rule isCached_cache_disabled_layer [THEN conjunct1, rule_format,
          of "example_layer True False True True"])
       (simp add: p frame_with_cache_def)
  have 2: "fst (isCached (frame_without_cache
        [Terrain (example_layer True False True True)]) example_key) = False"
    by (rule isCached_cache_disabled_layer [THEN conjunct1, rule_format,
          of "example_layer True False True True"])
       (simp add: p frame_without_cache_def)
  have 3: "isCached (frame_with_cache []) example_key = (True, [])"
    by (rule isCached_cache_disabled_layer [THEN conjunct2, THEN conjunct1, rule_format])
       (simp add: h, simp add: frame_with_cache_def)
  have 4: "fst (isCached (frame_with_cache
        [Terrain (example_layer False False True False), NonTerrain,
         Terrain (example_layer False False False False)]) example_key) = True"
  proof (rule isCached_cache_disabled_layer [THEN conjunct2, THEN conjunct2, rule_format])
    have "\<forall>t. Terrain t \<in> set (layers (frame_with_cache
        [Terrain (example_layer False False True False), NonTerrain,
         Terrain (example_layer False False False False)])) \<longrightarrow> \<not> getEnabled t"
      by (auto simp: frame_with_cache_def example_layer_def)
    then show "\<not> no_map_cache (frame_with_cache
        [Terrain (example_layer False False True False), NonTerrain,
         Terrain (example_layer False False False False)])
      \<and> (\<forall>t. Terrain t \<in> set (layers (frame_with_cache
        [Terrain (example_layer False False True False), NonTerrain,
         Terrain (example_layer False False False False)])) \<longrightarrow> \<not> getEnabled t)"
      using h by blast
  qed
  from 1 2 3 4 show ?thesis by simp
qed

text \<open>
  C4. Ancestor resolution in \<open>createValidImage\<close> and \<open>createValidHeightField\<close>: the source
  is asked at the requested key first and then at successive parent keys, up to and
  including the first key with data (\<open>keys_tried\<close>), or up to the root when there is none.
  \<open>createValidImage\<close> returns the first hit of the chain with the key that produced it; it
  returns false, and \<open>createValidHeightField\<close> returns null, exactly when the source has
  nothing at any key of the whole chain. Data at the requested key itself gives the
  requested key as producing key; after a failure at the requested key the producing key
  is a different key, of a smaller level.
\<close>

theorem ancestor_resolution:
  "createValidImage ts key imageTile =
     (case resolveAncestor (createImage ts) key of
        None \<Rightarrow> (False, imageTile, ancestor_chain key)
      | Some (img, k) \<Rightarrow> (True, (Some img, Some k), keys_tried (createImage ts) key))
   \<and> (fst (createValidImage ts key imageTile) = False
        \<longleftrightarrow> (\<forall>k \<in> set (ancestor_chain key). createImage ts k = None))
   \<and> (\<forall>img. createImage ts key = Some img
        \<longrightarrow> createValidImage ts key imageTile = (True, (Some img, Some key), [key]))
   \<and> (\<forall>img k asked. createImage ts key = None
          \<and> createValidImage ts key imageTile = (True, (Some img, Some k), asked)
        \<longrightarrow> k \<noteq> key \<and> level k < level key \<and> createImage ts k = Some img)
   \<and> snd (createValidHeightField extractChild hs key) = keys_tried (createHeightField hs) key
   \<and> (fst (createValidHeightField extractChild hs key) = None
        \<longleftrightarrow> (\<forall>k \<in> set (ancestor_chain key). createHeightField hs k = None))"
proof (intro conjI allI impI)
  show "createValidImage ts key imageTile =
     (case resolveAncestor (createImage ts) key of
        None \<Rightarrow> (False, imageTile, ancestor_chain key)
      | Some (img, k) \<Rightarrow> (True, (Some img, Some k), keys_tried (createImage ts) key))"
    by (simp add: createValidImage_resolve keys_tried_None split: option.splits)
next
  have "fst (createValidImage ts key imageTile) = False
        \<longleftrightarrow> resolveAncestor (createImage ts) key = None"
    by (simp add: createValidImage_resolve split: option.splits)
  then show "fst (createValidImage ts key imageTile) = False
        \<longleftrightarrow> (\<forall>k \<in> set (ancestor_chain key). createImage ts k = None)"
    by (simp only: resolveAncestor_None_iff)
next
  fix img
  assume "createImage ts key = Some img"
  then show "createValidImage ts key imageTile = (True, (Some img, Some key), [key])"
    using resolveAncestor_direct [of "createImage ts" key img]
    by (simp add: createValidImage_resolve)
next
  fix img k asked
  assume a: "createImage ts key = None
          \<and> createValidImage ts key imageTile = (True, (Some img, Some k), asked)"
  then have r: "resolveAncestor (createImage ts) key = Some (img, k)"
    by (auto simp: createValidImage_resolve split: option.splits)
  have lt: "level k < level key"
    using resolveAncestor_not_direct [of "createImage ts" key img k] a r by simp
  show "k \<noteq> key" using lt by auto
  show "level k < level key" by (rule lt)
  show "createImage ts k = Some img" using resolveAncestor_Some [OF r] by simp
next
  show "snd (createValidHeightField extractChild hs key) = keys_tried (createHeightField hs) key"
    by (rule createValidHeightField_asked)
next
  have "fst (createValidHeightField extractChild hs key) = None
        \<longleftrightarrow> resolveAncestor (createHeightField hs) key = None"
    by (simp add: createValidHeightField_resolve split: option.splits)
  then show "fst (createValidHeightField extractChild hs key) = None
        \<longleftrightarrow> (\<forall>k \<in> set (ancestor_chain key). createHeightField hs k = None)"
    by (simp only: resolveAncestor_None_iff)
qed

theorem ancestor_resolution_witness:
  "createValidImage coarse_source example_key (None, None) =
     (True, (Some 7, Some root_key), [example_key, \<lparr> level = 1, column = 1, row = 0 \<rparr>, root_key])
   \<and> createImage coarse_source root_key = Some 7
   \<and> createValidImage coarse_source root_key (None, None) = (True, (Some 7, Some root_key), [root_key])
   \<and> createImage coarse_source example_key = None
   \<and> root_key \<noteq> example_key
   \<and> fst (createValidImage empty_source example_key (Some 1, None)) = False
   \<and> fst (createValidHeightField example_extractChild empty_source example_key) = None"
proof -
  have d: "createImage coarse_source root_key = Some 7"
    by (simp add: coarse_source_def root_key_def)
  have n: "createImage coarse_source example_key = None"
    by (simp add: coarse_source_def example_key_def)
  have e1: "\<forall>k \<in> set (ancestor_chain example_key). createImage empty_source k = None"
    by (simp add: empty_source_def)
  have e2: "\<forall>k \<in> set (ancestor_chain example_key). createHeightField empty_source k = None"
    by (simp add: empty_source_def)
  note a = ancestor_resolution [of coarse_source example_key "(None, None)" example_extractChild coarse_source]
  note b = ancestor_resolution [of coarse_source root_key "(None, None)" example_extractChild coarse_source]
  note c = ancestor_resolution [of empty_source example_key "(Some 1, None)" example_extractChild empty_source]
  have 1: "createValidImage coarse_source example_key (None, None) =
     (True, (Some 7, Some root_key), [example_key, \<lparr> level = 1, column = 1, row = 0 \<rparr>, root_key])"
    using a [THEN conjunct1]
    by (simp only: example_resolve_image example_keys_tried_image option.case prod.case)
  have 2: "createValidImage coarse_source root_key (None, None) = (True, (Some 7, Some root_key), [root_key])"
    using b [THEN conjunct2, THEN conjunct2, THEN conjunct1, rule_format, OF d] .
  have 3: "root_key \<noteq> example_key"
    using a [THEN conjunct2, THEN conjunct2, THEN conjunct2, THEN conjunct1, rule_format, OF conjI [OF n 1]] by simp
  have 4: "fst (createValidImage empty_source example_key (Some 1, None)) = False"
    using c [THEN conjunct2, THEN conjunct1] e1 by simp
  have 5: "fst (createValidHeightField example_extractChild empty_source example_key) = None"
    using c [THEN conjunct2, THEN conjunct2, THEN conjunct2, THEN conjunct2, THEN conjunct2] e2 by simp
  from 1 d 2 n 3 4 5 show ?thesis by simp
qed

text \<open>
  C5. \<open>createValidHeightField\<close> returns the heightfield of the requested key unmodified
  when the source has one there (no extraction takes place: the result does not depend on
  \<open>extractChild\<close>). When the first hit is at a proper ancestor, the result is
  \<open>extractChild\<close> applied to the ancestor's key and heightfield and to the requested key,
  with the ancestor heightfield's own column and row counts as the dimensions asked for.
\<close>

theorem heightfield_found_resolution:
  "fst (createValidHeightField extractChild hs key) =
     (case resolveAncestor (createHeightField hs) key of
        None \<Rightarrow> None
      | Some (hf, k) \<Rightarrow>
          if k = key then Some hf
          else Some (extractChild k hf key (getNumColumns hf) (getNumRows hf)))
   \<and> (\<forall>hf. createHeightField hs key = Some hf
        \<longrightarrow> createValidHeightField extractChild hs key = (Some hf, [key]))
   \<and> (\<forall>hf k. createHeightField hs key = None
          \<and> resolveAncestor (createHeightField hs) key = Some (hf, k)
        \<longrightarrow> level k < level key \<and> createHeightField hs k = Some hf
            \<and> fst (createValidHeightField extractChild hs key)
                = Some (extractChild k hf key (getNumColumns hf) (getNumRows hf)))"
proof (intro conjI allI impI)
  show "fst (createValidHeightField extractChild hs key) =
     (case resolveAncestor (createHeightField hs) key of
        None \<Rightarrow> None
      | Some (hf, k) \<Rightarrow>
          if k = key then Some hf
          else Some (extractChild k hf key (getNumColumns hf) (getNumRows hf)))"
    by (simp add: createValidHeightField_resolve split: option.splits)
next
  fix hf
  assume "createHeightField hs key = Some hf"
  then show "createValidHeightField extractChild hs key = (Some hf, [key])"
    by (simp add: createValidHeightField_def)
next
  fix hf k
  assume a: "createHeightField hs key = None
          \<and> resolveAncestor (createHeightField hs) key = Some (hf, k)"
  then have r: "resolveAncestor (createHeightField hs) key = Some (hf, k)" by simp
  show lt: "level k < level key"
    using resolveAncestor_not_direct [of "createHeightField hs" key hf k] a by simp
  show "createHeightField hs k = Some hf"
    using resolveAncestor_Some [OF r] by simp
  have "k \<noteq> key" using lt by auto
  then show "fst (createValidHeightField extractChild hs key)
                = Some (extractChild k hf key (getNumColumns hf) (getNumRows hf))"
    by (simp add: createValidHeightField_resolve r)
qed

theorem heightfield_found_resolution_witness:
  "createHeightField coarse_source example_key = None
   \<and> resolveAncestor (createHeightField coarse_source) example_key = Some (example_heightfield, root_key)
   \<and> fst (createValidHeightField example_extractChild coarse_source example_key)
       = Some \<lparr> getNumColumns = 2, getNumRows = 3, getHeightList = [0, 0, 0, 0, 0, 0] \<rparr>
   \<and> createHeightField coarse_source root_key = Some example_heightfield
   \<and> createValidHeightField example_extractChild coarse_source root_key
       = (Some example_heightfield, [root_key])"
proof -
  have n: "createHeightField coarse_source example_key = None"
    by (simp add: coarse_source_def example_key_def)
  have d: "createHeightField coarse_source root_key = Some example_heightfield"
    by (simp add: coarse_source_def root_key_def)
  note a = heightfield_found_resolution [of example_extractChild coarse_source example_key]
  note b = heightfield_found_resolution [of example_extractChild coarse_source root_key]
  have "fst (createValidHeightField example_extractChild coarse_source example_key)
       = Some (example_extractChild root_key example_heightfield example_key
                (getNumColumns example_heightfield) (getNumRows example_heightfield))"
    using a [THEN conjunct2, THEN conjunct2, rule_format, OF conjI [OF n example_resolve_heightfield]] by simp
  then have 1: "fst (createValidHeightField example_extractChild coarse_source example_key)
       = Some \<lparr> getNumColumns = 2, getNumRows = 3, getHeightList = [0, 0, 0, 0, 0, 0] \<rparr>"
    by (simp add: example_extractChild_def example_heightfield_def numeral_eq_Suc)
  have 2: "createValidHeightField example_extractChild coarse_source root_key
       = (Some example_heightfield, [root_key])"
    using b [THEN conjunct2, THEN conjunct1, rule_format, OF d] .
  from n example_resolve_heightfield 1 d 2 show ?thesis by simp
qed




text \<open>
  C7. For every tile key \<open>k\<close>, \<open>createParentKey\<close> applied \<open>n \<le> level k\<close> times yields a key
  of level \<open>level k - n\<close> (the level falls by one at each step and reaches 0 after exactly
  \<open>level k\<close> steps), and one more application yields the absent result. Hence the walks of
  \<open>createValidImage\<close> and \<open>createValidHeightField\<close> ask the source at no more than
  \<open>level k + 1\<close> keys, of strictly decreasing level, and return: no depth cap is needed.
\<close>

theorem createParentKey_walk_terminates:
  "(\<forall>n. n \<le> level k \<longrightarrow> (\<exists>a. parent_iter n k = Some a \<and> level a = level k - n))
   \<and> parent_iter (Suc (level k)) k = None
   \<and> length (snd (snd (createValidImage ts k imageTile))) \<le> Suc (level k)
   \<and> sorted_wrt (\<lambda>a b. level b < level a) (snd (snd (createValidImage ts k imageTile)))
   \<and> length (snd (createValidHeightField extractChild hs k)) \<le> Suc (level k)
   \<and> sorted_wrt (\<lambda>a b. level b < level a) (snd (createValidHeightField extractChild hs k))"
proof (intro conjI allI impI)
  fix n
  assume "n \<le> level k"
  then show "\<exists>a. parent_iter n k = Some a \<and> level a = level k - n"
    by (rule parent_iter_level)
next
  show "parent_iter (Suc (level k)) k = None"
    by (rule parent_iter_exhausted)
qed (simp_all only: createValidImage_asked createValidHeightField_asked
       keys_tried_length keys_tried_sorted)

theorem createParentKey_walk_terminates_witness:
  "(2::nat) \<le> level example_key
   \<and> parent_iter 2 example_key = Some \<lparr> level = 0, column = 0, row = 0 \<rparr>
   \<and> parent_iter 3 example_key = None
   \<and> length (snd (snd (createValidImage coarse_source example_key (None, None)))) = 3"
proof -
  have h: "(2::nat) \<le> level example_key"
    by (simp add: example_key_def)
  have e: "parent_iter 2 example_key = Some \<lparr> level = 0, column = 0, row = 0 \<rparr>"
    by code_simp
  have l: "length (snd (snd (createValidImage coarse_source example_key (None, None)))) = 3"
    by (simp add: createValidImage_asked keys_tried_def example_chain has_data_def)
       (simp add: coarse_source_def example_key_def)
  have "parent_iter (Suc (level example_key)) example_key = None"
    using createParentKey_walk_terminates
      [of example_key coarse_source "(None, None)" example_extractChild coarse_source]
    by blast
  then have "parent_iter 3 example_key = None"
    by (simp add: example_key_def numeral_3_eq_3)
  with h e l show ?thesis by simp
qed

text \<open>
  C8. Whenever \<open>createValidImage\<close> succeeds, the producing key it returns has a level no
  greater than the requested key's and is reached from the requested key by applying
  \<open>createParentKey\<close> some number of times; and every key at which \<open>createValidImage\<close> or
  \<open>createValidHeightField\<close> asks the source is such a key: the requested key or one of its
  ancestors, never a descendant.
\<close>

theorem producing_key_not_deeper:
  "(\<forall>img pk asked. createValidImage ts key imageTile = (True, (img, Some pk), asked)
        \<longrightarrow> level pk \<le> level key \<and> (\<exists>n. parent_iter n key = Some pk))
   \<and> (\<forall>a \<in> set (snd (snd (createValidImage ts key imageTile))).
          level a \<le> level key \<and> (\<exists>n. parent_iter n key = Some a))
   \<and> (\<forall>a \<in> set (snd (createValidHeightField extractChild hs key)).
          level a \<le> level key \<and> (\<exists>n. parent_iter n key = Some a))"
proof (intro conjI allI impI ballI)
  fix img pk asked
  assume a: "createValidImage ts key imageTile = (True, (img, Some pk), asked)"
  then have "\<exists>i. resolveAncestor (createImage ts) key = Some (i, pk)"
    by (cases "resolveAncestor (createImage ts) key") (auto simp: createValidImage_resolve)
  then obtain i where r: "resolveAncestor (createImage ts) key = Some (i, pk)" ..
  have m: "pk \<in> set (ancestor_chain key)"
    using resolveAncestor_Some [OF r] by simp
  show "level pk \<le> level key" using m by (rule ancestor_chain_level_le)
  show "\<exists>n. parent_iter n key = Some pk" by (rule ancestor_chain_set [THEN iffD1, OF m])
next
  fix a
  assume "a \<in> set (snd (snd (createValidImage ts key imageTile)))"
  then have "a \<in> set (keys_tried (createImage ts) key)"
    by (simp only: createValidImage_asked)
  then have m: "a \<in> set (ancestor_chain key)"
    by (rule subsetD [OF keys_tried_subset])
  show "level a \<le> level key" using m by (rule ancestor_chain_level_le)
  show "\<exists>n. parent_iter n key = Some a" by (rule ancestor_chain_set [THEN iffD1, OF m])
next
  fix a
  assume "a \<in> set (snd (createValidHeightField extractChild hs key))"
  then have "a \<in> set (keys_tried (createHeightField hs) key)"
    by (simp only: createValidHeightField_asked)
  then have m: "a \<in> set (ancestor_chain key)"
    by (rule subsetD [OF keys_tried_subset])
  show "level a \<le> level key" using m by (rule ancestor_chain_level_le)
  show "\<exists>n. parent_iter n key = Some a" by (rule ancestor_chain_set [THEN iffD1, OF m])
qed

theorem producing_key_not_deeper_witness:
  "createValidImage coarse_source example_key (None, None) =
     (True, (Some 7, Some root_key), [example_key, \<lparr> level = 1, column = 1, row = 0 \<rparr>, root_key])
   \<and> level root_key \<le> level example_key
   \<and> (\<exists>n. parent_iter n example_key = Some root_key)
   \<and> \<lparr> level = 1, column = 1, row = 0 \<rparr> \<in> set (snd (snd (createValidImage coarse_source example_key (None, None))))
   \<and> level \<lparr> level = 1, column = 1, row = 0 \<rparr> \<le> level example_key
   \<and> root_key \<in> set (snd (createValidHeightField example_extractChild coarse_source example_key))"
proof -
  note t = producing_key_not_deeper
    [of coarse_source example_key "(None, None)" example_extractChild coarse_source]
  have 1: "level root_key \<le> level example_key \<and> (\<exists>n. parent_iter n example_key = Some root_key)"
    by (rule t [THEN conjunct1, rule_format, OF example_createValidImage])
  have m: "\<lparr> level = 1, column = 1, row = 0 \<rparr>
      \<in> set (snd (snd (createValidImage coarse_source example_key (None, None))))"
    by (simp add: example_createValidImage)
  have 2: "level \<lparr> level = 1, column = 1, row = 0 \<rparr> \<le> level example_key"
    using t [THEN conjunct2, THEN conjunct1, rule_format, OF m] by (rule conjunct1)
  have 3: "root_key \<in> set (snd (createValidHeightField example_extractChild coarse_source example_key))"
    by (simp add: createValidHeightField_asked keys_tried_def example_chain has_data_def root_key_def)
       (simp add: coarse_source_def example_key_def)
  from example_createValidImage 1 m 2 3 show ?thesis by simp
qed

text \<open>
  C9. For every tile key and every layer list, the empty one included: if the map is alive
  and has no map-level cache object, \<open>MapFrame::isCached\<close> returns false and makes no call
  on any layer.
\<close>

theorem isCached_without_map_cache:
  assumes "map_lock mf = Some m" and "getCache m = None"
  shows "isCached mf key = (False, [])"
  using assms by (simp add: isCached_def no_map_cache_def)

theorem isCached_without_map_cache_witness:
  "map_lock (frame_without_cache []) = Some \<lparr> getCache = None \<rparr>
   \<and> getCache \<lparr> getCache = None \<rparr> = None
   \<and> isCached (frame_without_cache []) example_key = (False, [])
   \<and> isCached (frame_without_cache [Terrain (example_layer True False False True)]) example_key
       = (False, [])
   \<and> isCached (frame_with_cache [Terrain (example_layer True False False True)]) example_key
       \<noteq> (False, [])"
proof -
  have m: "map_lock (frame_without_cache ls) = Some \<lparr> getCache = None \<rparr>" for ls
    by (simp add: frame_without_cache_def)
  have c: "getCache \<lparr> getCache = None \<rparr> = None"
    by simp
  have 1: "isCached (frame_without_cache ls) example_key = (False, [])" for ls
    by (rule isCached_without_map_cache [OF m c])
  have 2: "isCached (frame_with_cache [Terrain (example_layer True False False True)]) example_key
       \<noteq> (False, [])"
    by (simp add: isCached_def no_map_cache_def frame_with_cache_def layer_body_def
        example_layer_def)
  from m c 1 2 show ?thesis by simp
qed

text \<open>
  C10. When \<open>createValidImage\<close> returns false, the caller's image/key pair is exactly what
  it was before the call; when it returns true, both fields have been written: the image
  the source produced and the key that produced it.
\<close>

theorem createValidImage_failure_keeps_output:
  "(\<not> fst (createValidImage ts key imageTile)
      \<longrightarrow> fst (snd (createValidImage ts key imageTile)) = imageTile)
   \<and> (fst (createValidImage ts key imageTile)
      \<longrightarrow> (\<exists>img k. fst (snd (createValidImage ts key imageTile)) = (Some img, Some k)
                \<and> createImage ts k = Some img))"
proof (cases "resolveAncestor (createImage ts) key")
  case None
  then show ?thesis
    by (simp add: createValidImage_resolve)
next
  case (Some found)
  obtain img k where f: "found = (img, k)" by (cases found)
  have "createImage ts k = Some img"
    using resolveAncestor_Some [of "createImage ts" key img k] Some f by simp
  then show ?thesis
    using Some f by (simp add: createValidImage_resolve)
qed

theorem createValidImage_failure_keeps_output_witness:
  "\<not> fst (createValidImage empty_source example_key (Some 1, Some root_key))
   \<and> fst (snd (createValidImage empty_source example_key (Some 1, Some root_key))) = (Some 1, Some root_key)
   \<and> fst (createValidImage coarse_source example_key (None, None))
   \<and> fst (snd (createValidImage coarse_source example_key (None, None))) = (Some 7, Some root_key)"
proof -
  have "resolveAncestor (createImage empty_source) example_key = None"
    by (simp add: resolveAncestor_None_iff empty_source_def)
  then have f: "\<not> fst (createValidImage empty_source example_key (Some 1, Some root_key))"
    by (simp add: createValidImage_resolve)
  have 1: "fst (snd (createValidImage empty_source example_key (Some 1, Some root_key)))
      = (Some 1, Some root_key)"
    by (rule createValidImage_failure_keeps_output [THEN conjunct1, rule_format, OF f])
  have t: "fst (createValidImage coarse_source example_key (None, None))"
    by (simp add: example_createValidImage)
  have "\<exists>img k. fst (snd (createValidImage coarse_source example_key (None, None))) = (Some img, Some k)
                \<and> createImage coarse_source k = Some img"
    by (rule createValidImage_failure_keeps_output [THEN conjunct2, rule_format, OF t])
  then have 2: "fst (snd (createValidImage coarse_source example_key (None, None))) = (Some 7, Some root_key)"
    by (simp add: example_createValidImage)
  from f 1 t 2 show ?thesis by simp
qed

end
